theory Spec2Isabelle
  imports Complex_Main
begin

section \<open>Conventions of the embedding\<close>

text \<open>
  The two scripts are embedded function by function. A JavaScript number that holds a
  pixel quantity, a timestamp or a momentum is a \<^typ>\<open>real\<close> (exact arithmetic: the
  rounding of IEEE doubles is not modelled); a number that is the result of
  \<^verbatim>\<open>parseInt\<close>, an array index or an array length is an \<^typ>\<open>int\<close>. An object with
  fields is a record, a mutated object is passed in and returned, a thrown exception is
  the left summand of a sum type. What the browser supplies (window width, text
  direction, media queries, clock readings, event coordinates) is a parameter.
\<close>

section \<open>Header overlap controller (header-hero-header.js)\<close>

text \<open>The two edges of a \<^verbatim>\<open>getBoundingClientRect()\<close> result that the script reads.\<close>

record rect =
  rect_top :: real
  rect_bottom :: real

text \<open>
  The outputs of \<^verbatim>\<open>updateState\<close>: the class lists of the header wrapper and of the
  document root, and the pending frame request \<^verbatim>\<open>rafId\<close>.
\<close>

record header_dom =
  wrapperClasses :: "string set"
  rootClasses :: "string set"
  rafId :: "nat option"

text \<open>
  \<^verbatim>\<open>heroRect && heroRect.top < headerRect.bottom && heroRect.bottom > headerRect.top\<close>;
  \<^verbatim>\<open>heroRect\<close> is \<^verbatim>\<open>null\<close> (here \<open>None\<close>) when the page has no hero section.
\<close>

definition overlapping :: "rect option \<Rightarrow> rect \<Rightarrow> bool" where
  "overlapping heroRect headerRect =
     (case heroRect of
        None \<Rightarrow> False
      | Some h \<Rightarrow> rect_top h < rect_bottom headerRect \<and> rect_bottom h > rect_top headerRect)"

definition updateState :: "rect option \<Rightarrow> rect \<Rightarrow> header_dom \<Rightarrow> header_dom" where
  "updateState heroRect headerRect d =
     (let d0 = d\<lparr>rafId := None\<rparr> in
      if overlapping heroRect headerRect
      then d0\<lparr>wrapperClasses := insert ''is-transparent'' (wrapperClasses d0) - {''is-solid''},
              rootClasses := insert ''header-overlap'' (rootClasses d0)\<rparr>
      else d0\<lparr>wrapperClasses := insert ''is-solid'' (wrapperClasses d0 - {''is-transparent''}),
              rootClasses := rootClasses d0 - {''header-overlap''}\<rparr>)"

text \<open>The two visual states of the header, read off the class lists.\<close>

definition transparentState :: "header_dom \<Rightarrow> bool" where
  "transparentState d =
     (''is-transparent'' \<in> wrapperClasses d \<and> ''is-solid'' \<notin> wrapperClasses d
      \<and> ''header-overlap'' \<in> rootClasses d)"

definition solidState :: "header_dom \<Rightarrow> bool" where
  "solidState d =
     (''is-solid'' \<in> wrapperClasses d \<and> ''is-transparent'' \<notin> wrapperClasses d
      \<and> ''header-overlap'' \<notin> rootClasses d)"

section \<open>Carousel (review-banner-carousel.js): utilities and configuration\<close>

text \<open>\<^verbatim>\<open>clamp = (value, min, max) => Math.max(min, Math.min(max, value))\<close>\<close>

definition clamp :: "int \<Rightarrow> int \<Rightarrow> int \<Rightarrow> int" where
  "clamp v lo hi = max lo (min hi v)"

subsection \<open>\<^verbatim>\<open>parseInt\<close> with no radix argument\<close>

text \<open>
  ECMAScript's \<^verbatim>\<open>parseInt(string)\<close>: leading white space is skipped, then an optional
  sign, then an optional \<^verbatim>\<open>0x\<close>/\<^verbatim>\<open>0X\<close> prefix that selects radix 16, then the longest
  run of digits of the radix; no digit gives \<^verbatim>\<open>NaN\<close>, here \<open>None\<close>. Characters are
  bytes, so only the ASCII white space characters are recognised, and the result is the
  exact integer (a double would round beyond \<open>2^53\<close>).
\<close>

definition isWhiteSpace :: "char \<Rightarrow> bool" where
  "isWhiteSpace ch = (ch \<in> set [CHR 0x09, CHR 0x0A, CHR 0x0B, CHR 0x0C, CHR 0x0D, CHR '' ''])"

definition digitValue :: "char \<Rightarrow> nat option" where
  "digitValue ch =
     (let n = (of_char ch :: nat) in
      if 48 \<le> n \<and> n \<le> 57 then Some (n - 48)
      else if 97 \<le> n \<and> n \<le> 122 then Some (n - 87)
      else if 65 \<le> n \<and> n \<le> 90 then Some (n - 55)
      else None)"

definition radixDigit :: "nat \<Rightarrow> char \<Rightarrow> nat option" where
  "radixDigit R ch =
     (case digitValue ch of
        None \<Rightarrow> None
      | Some d \<Rightarrow> if d < R then Some d else None)"

fun parseDigits :: "nat \<Rightarrow> string \<Rightarrow> nat option \<Rightarrow> nat option" where
  "parseDigits R [] acc = acc"
| "parseDigits R (ch # cs) acc =
     (case radixDigit R ch of
        None \<Rightarrow> acc
      | Some d \<Rightarrow> parseDigits R cs (Some (R * (case acc of None \<Rightarrow> 0 | Some a \<Rightarrow> a) + d)))"

definition stripSign :: "string \<Rightarrow> int \<times> string" where
  "stripSign s =
     (case s of
        [] \<Rightarrow> (1, [])
      | ch # cs \<Rightarrow> if ch = CHR ''-'' then (- 1, cs) else if ch = CHR ''+'' then (1, cs) else (1, s))"

definition stripPrefix :: "string \<Rightarrow> nat \<times> string" where
  "stripPrefix s =
     (case s of
        a # b # cs \<Rightarrow>
          if a = CHR ''0'' \<and> (b = CHR ''x'' \<or> b = CHR ''X'') then (16, cs) else (10, s)
      | _ \<Rightarrow> (10, s))"

definition parseInt :: "string \<Rightarrow> int option" where
  "parseInt s =
     (let (sgn, s1) = stripSign (dropWhile isWhiteSpace s);
          (R, s2) = stripPrefix s1
      in map_option (\<lambda>n. sgn * int n) (parseDigits R s2 None))"

text \<open>
  A \<^verbatim>\<open>dataset\<close> property that is absent reads as \<^verbatim>\<open>undefined\<close>, which \<^verbatim>\<open>parseInt\<close>
  converts to the string \<^verbatim>\<open>"undefined"\<close> before parsing.
\<close>

definition parseIntAttr :: "string option \<Rightarrow> int option" where
  "parseIntAttr a = parseInt (case a of None \<Rightarrow> ''undefined'' | Some s \<Rightarrow> s)"

text \<open>\<^verbatim>\<open>n || d\<close> on a number: \<^verbatim>\<open>NaN\<close> and zero are falsy.\<close>

definition numOr :: "int option \<Rightarrow> int \<Rightarrow> int" where
  "numOr n d = (case n of None \<Rightarrow> d | Some v \<Rightarrow> if v = 0 then d else v)"

text \<open>\<^verbatim>\<open>s || d\<close> on a string attribute: \<^verbatim>\<open>undefined\<close> and the empty string are falsy.\<close>

definition strOr :: "string option \<Rightarrow> string \<Rightarrow> string" where
  "strOr a d = (case a of None \<Rightarrow> d | Some s \<Rightarrow> if s = [] then d else s)"

subsection \<open>Elements, environment, configuration\<close>

text \<open>
  What the carousel reads of its wrapper element: whether the track and the content
  block are found, the \<^verbatim>\<open>dataset\<close>, and the children of the content block, each child
  given by the width that \<^verbatim>\<open>getBoundingClientRect()\<close> reports for it.
\<close>

record element =
  hasTrack :: bool
  hasContent :: bool
  dataset :: "string \<rightharpoonup> string"
  contentChildren :: "real list"

text \<open>
  What the carousel reads of the window and the document: \<^verbatim>\<open>window.innerWidth\<close>,
  \<^verbatim>\<open>document.documentElement.dir === 'rtl'\<close>, \<^verbatim>\<open>document.hidden\<close>, the result of
  the media query \<^verbatim>\<open>(prefers-reduced-motion: reduce)\<close>, and the two readings of
  \<^verbatim>\<open>performance.now()\<close> that one call of \<^verbatim>\<open>play\<close> takes: \<open>now\<close> for
  \<^verbatim>\<open>lastTimestamp\<close>, then \<open>nowAnimate\<close> for the default argument of \<^verbatim>\<open>animate\<close>.
\<close>

record env =
  innerWidth :: int
  rtl :: bool
  hidden :: bool
  prefersReducedMotion :: bool
  now :: real
  nowAnimate :: real

record config =
  speed :: int
  direction :: string
  pauseOnHover :: bool
  autoplay :: bool
  gap :: int
  gapMobile :: int
  dragEnabled :: bool
  keyboardEnabled :: bool
  imageStrategy :: string
  reducedMotion :: bool

definition parseConfig :: "element \<Rightarrow> env \<Rightarrow> config" where
  "parseConfig el e =
     \<lparr> speed = numOr (parseIntAttr (dataset el ''scrollSpeed'')) 60,
       direction = strOr (dataset el ''direction'') ''left'',
       pauseOnHover = (dataset el ''pauseOnHover'' \<noteq> Some ''false''),
       autoplay = (dataset el ''autoplay'' \<noteq> Some ''false''),
       gap = numOr (parseIntAttr (dataset el ''gap'')) 24,
       gapMobile = numOr (parseIntAttr (dataset el ''gapMobile'')) 16,
       dragEnabled = (dataset el ''dragEnabled'' \<noteq> Some ''false''),
       keyboardEnabled = (dataset el ''keyboardEnabled'' \<noteq> Some ''false''),
       imageStrategy = strOr (dataset el ''imageStrategy'') ''lazy'',
       reducedMotion = prefersReducedMotion e \<rparr>"

text \<open>
  \<^verbatim>\<open>window.innerWidth >= 750 ? this.config.gap : this.config.gapMobile\<close>, the gap in
  force at the current window width.
\<close>

definition activeGap :: "env \<Rightarrow> config \<Rightarrow> int" where
  "activeGap e cfg = (if innerWidth e \<ge> 750 then gap cfg else gapMobile cfg)"

text \<open>\<^verbatim>\<open>Math.max(1, this.config.speed)\<close>, the divisor of the velocity formula.\<close>

definition speedDivisor :: "config \<Rightarrow> int" where
  "speedDivisor cfg = max 1 (speed cfg)"

section \<open>Carousel: instance state\<close>

text \<open>
  \<^verbatim>\<open>track.style.transform\<close>: the empty string, or
  \<^verbatim>\<open>translate3d(${offset}px, 0, 0)\<close> carrying the offset it was built from.
\<close>

datatype transform = NoTransform | Translate3d real

text \<open>
  One constructed instance: \<^verbatim>\<open>this.config\<close>, the fields of \<^verbatim>\<open>this.state\<close>
  (\<open>initialized\<close> to \<open>lastX\<close>; \<open>startX\<close> and \<open>lastX\<close> are first written by
  \<^verbatim>\<open>handlePointerDown\<close> and only read while \<open>dragging\<close>), what the instance writes
  to its element and the document (\<open>classes\<close> to \<open>observing\<close>), and the frame
  callbacks of \<^verbatim>\<open>this.animate\<close> that the browser holds for it.

  \<^item> \<open>slides\<close> holds one measured width per slide element; \<open>clones\<close> is the length
    of \<^verbatim>\<open>state.clones\<close> and \<open>attachedClones\<close> the number of clone groups in the track.
  \<^item> \<open>tabStop\<close> is the slide with \<^verbatim>\<open>tabindex="0"\<close>, \<open>focusedSlide\<close> the slide
    last given focus, \<open>announcements\<close> the pairs \<open>(K, N)\<close> of the messages
    \<^verbatim>\<open>Review K of N\<close>, \<open>dispatched\<close> the names of the \<^verbatim>\<open>rbc:\<close> events sent and
    \<open>tracked\<close> the names passed to the analytics object.
  \<^item> \<open>rafQueue\<close> lists the handles of the pending
    \<^verbatim>\<open>requestAnimationFrame(this.animate)\<close> requests and \<open>rafNext\<close> is the next
    handle the browser hands out. The frame requests of \<^verbatim>\<open>measureDimensions\<close> and of
    the momentum closure are separate requests and are not in this list.
\<close>

record carousel =
  config :: config
  initialized :: bool
  playing :: bool
  visible :: bool
  dragging :: bool
  offset :: real
  velocity :: real
  baseWidth :: real
  cloneCount :: nat
  animationId :: "nat option"
  lastTimestamp :: real
  slides :: "real list"
  clones :: nat
  currentSlideIndex :: int
  startX :: real
  lastX :: real
  classes :: "string set"
  cursor :: string
  transform :: transform
  attachedClones :: nat
  tabStop :: "int option"
  focusedSlide :: "int option"
  announcements :: "(int \<times> int) list"
  dispatched :: "string list"
  tracked :: "string list"
  observing :: bool
  rafQueue :: "nat list"
  rafNext :: nat

text \<open>
  The state object that the constructor builds once both required elements are found,
  followed by the synchronous start of \<^verbatim>\<open>init()\<close>, which adds the class
  \<^verbatim>\<open>rbc-initializing\<close> before its first \<^verbatim>\<open>await\<close>.
\<close>

definition newCarousel :: "element \<Rightarrow> env \<Rightarrow> carousel" where
  "newCarousel el e =
     (let cfg = parseConfig el e in
      \<lparr> config = cfg,
        initialized = False,
        playing = autoplay cfg,
        visible = False,
        dragging = False,
        offset = 0,
        velocity = 0,
        baseWidth = 0,
        cloneCount = 3,
        animationId = None,
        lastTimestamp = 0,
        slides = [],
        clones = 0,
        currentSlideIndex = 0,
        startX = 0,
        lastX = 0,
        classes = {''rbc-initializing''},
        cursor = [],
        transform = NoTransform,
        attachedClones = 0,
        tabStop = None,
        focusedSlide = None,
        announcements = [],
        dispatched = [],
        tracked = [],
        observing = False,
        rafQueue = [],
        rafNext = 1 \<rparr>)"

subsection \<open>Events, analytics and the frame scheduler\<close>

definition dispatchEvent :: "string \<Rightarrow> carousel \<Rightarrow> carousel" where
  "dispatchEvent eventName c = c\<lparr>dispatched := dispatched c @ [eventName]\<rparr>"

definition track :: "string \<Rightarrow> carousel \<Rightarrow> carousel" where
  "track eventName c = c\<lparr>tracked := tracked c @ [eventName]\<rparr>"

text \<open>
  \<^verbatim>\<open>requestAnimationFrame(this.animate)\<close> returns a fresh non-zero handle and keeps the
  callback until it runs or is cancelled; \<^verbatim>\<open>cancelAnimationFrame(id)\<close> drops it.
\<close>

definition requestAnimationFrame :: "carousel \<Rightarrow> nat \<times> carousel" where
  "requestAnimationFrame c =
     (rafNext c, c\<lparr>rafQueue := rafQueue c @ [rafNext c], rafNext := Suc (rafNext c)\<rparr>)"

definition cancelAnimationFrame :: "nat \<Rightarrow> carousel \<Rightarrow> carousel" where
  "cancelAnimationFrame n c = c\<lparr>rafQueue := removeAll n (rafQueue c)\<rparr>"

subsection \<open>Measuring and clones\<close>

definition updateTransform :: "carousel \<Rightarrow> carousel" where
  "updateTransform c = c\<lparr>transform := Translate3d (offset c)\<rparr>"

text \<open>
  The body of the frame callback that \<^verbatim>\<open>measureDimensions\<close> schedules: the widths of
  the slides are summed, with the gap after every slide but the last.
\<close>

definition measureDimensions :: "env \<Rightarrow> carousel \<Rightarrow> carousel" where
  "measureDimensions e c =
     (let g = activeGap e (config c);
          n = length (slides c);
          totalWidth =
            fold (\<lambda>(index, w) total.
                    (total + w) + (if int index < int n - 1 then real_of_int g else 0))
                 (zip [0..<n] (slides c)) 0;
          c1 = c\<lparr>baseWidth := totalWidth\<rparr>;
          c2 = c1\<lparr>velocity := baseWidth c1 / real_of_int (speedDivisor (config c1))\<rparr>
      in updateTransform c2)"

definition createClones :: "carousel \<Rightarrow> carousel" where
  "createClones c =
     (let c1 = c\<lparr>attachedClones := 0, clones := 0\<rparr> in
      if slides c1 = [] then c1
      else c1\<lparr>clones := cloneCount c1, attachedClones := cloneCount c1\<rparr>)"

subsection \<open>Animation and movement\<close>

text \<open>\<^verbatim>\<open>wrapPoint = baseWidth + (innerWidth >= 750 ? gap : gapMobile)\<close>\<close>

definition wrapPoint :: "env \<Rightarrow> carousel \<Rightarrow> real" where
  "wrapPoint e c = baseWidth c + real_of_int (activeGap e (config c))"

definition wrapOffset :: "env \<Rightarrow> carousel \<Rightarrow> carousel" where
  "wrapOffset e c =
     (if direction (config c) = ''left''
      then (if offset c \<le> - wrapPoint e c then c\<lparr>offset := offset c + wrapPoint e c\<rparr> else c)
      else (if offset c \<ge> wrapPoint e c then c\<lparr>offset := offset c - wrapPoint e c\<rparr> else c))"

definition animate :: "env \<Rightarrow> real \<Rightarrow> carousel \<Rightarrow> carousel" where
  "animate e timestamp c =
     (if \<not> playing c then c
      else
        let deltaTime = min ((timestamp - lastTimestamp c) / 1000) (1 / 30);
            c1 = c\<lparr>lastTimestamp := timestamp\<rparr>;
            dir = (if direction (config c1) = ''left'' then - 1 else 1 :: real);
            rtlMultiplier = (if rtl e then - 1 else 1 :: real);
            v = dir * rtlMultiplier * velocity c1;
            c2 = c1\<lparr>offset := offset c1 + v * deltaTime\<rparr>;
            c3 = updateTransform (wrapOffset e c2);
            (handle, c4) = requestAnimationFrame c3
        in c4\<lparr>animationId := Some handle\<rparr>)"

definition play :: "env \<Rightarrow> carousel \<Rightarrow> carousel" where
  "play e c =
     (if \<not> initialized c \<or> playing c \<or> reducedMotion (config c) then c
      else
        let c1 = c\<lparr>playing := True, lastTimestamp := now e\<rparr>;
            c2 = animate e (nowAnimate e) c1;
            c3 = c2\<lparr>classes := classes c2 - {''is-paused''}\<rparr>
        in track ''play'' (dispatchEvent ''play'' c3))"

text \<open>
  \<^verbatim>\<open>if (this.state.animationId)\<close> is a truthiness test: \<^verbatim>\<open>null\<close> and the handle
  \<open>0\<close> both skip the cancellation.
\<close>

definition pause :: "carousel \<Rightarrow> carousel" where
  "pause c =
     (if \<not> playing c then c
      else
        let c1 = c\<lparr>playing := False\<rparr>;
            c2 = (case animationId c1 of
                    None \<Rightarrow> c1
                  | Some n \<Rightarrow>
                      if n = 0 then c1
                      else (cancelAnimationFrame n c1)\<lparr>animationId := None\<rparr>);
            c3 = c2\<lparr>classes := insert ''is-paused'' (classes c2)\<rparr>
        in track ''pause'' (dispatchEvent ''pause'' c3))"

definition resume :: "env \<Rightarrow> carousel \<Rightarrow> carousel" where
  "resume e c =
     (if \<not> autoplay (config c) \<or> playing c \<or> \<not> visible c \<or> reducedMotion (config c) then c
      else play e c)"

text \<open>
  The browser runs a pending frame callback: the request leaves the list and
  \<^verbatim>\<open>animate\<close> is called with the frame's timestamp. A handle that is not pending (never
  issued, already run, or cancelled) runs nothing.
\<close>

definition frame :: "env \<Rightarrow> nat \<Rightarrow> real \<Rightarrow> carousel \<Rightarrow> carousel" where
  "frame e handle timestamp c =
     (if handle \<in> set (rafQueue c)
      then animate e timestamp (c\<lparr>rafQueue := removeAll handle (rafQueue c)\<rparr>)
      else c)"

subsection \<open>Pointer drag and momentum\<close>

text \<open>
  \<open>onInteractive\<close> is \<^verbatim>\<open>e.target.closest('a, button')\<close> being non-null. The throttle
  wrapper around \<^verbatim>\<open>handlePointerMove\<close> drops calls; a call that is let through runs
  the function below.
\<close>

definition handlePointerDown :: "real \<Rightarrow> bool \<Rightarrow> carousel \<Rightarrow> carousel" where
  "handlePointerDown clientX onInteractive c =
     (if \<not> dragEnabled (config c) \<or> onInteractive then c
      else
        let c1 = pause (c\<lparr>dragging := True\<rparr>);
            c2 = c1\<lparr>startX := clientX, lastX := clientX\<rparr>;
            c3 = c2\<lparr>classes := insert ''rbc-dragging'' (classes c2), cursor := ''grabbing''\<rparr>
        in track ''drag_start'' c3)"

definition handlePointerMove :: "real \<Rightarrow> carousel \<Rightarrow> carousel" where
  "handlePointerMove clientX c =
     (if \<not> dragging c then c
      else
        let deltaX = clientX - lastX c;
            c1 = updateTransform (c\<lparr>offset := offset c + deltaX\<rparr>)
        in c1\<lparr>lastX := clientX\<rparr>)"

text \<open>
  The closure \<^verbatim>\<open>momentumAnimation\<close> of \<^verbatim>\<open>addMomentum\<close>, called once directly and then
  once per frame through \<^verbatim>\<open>requestAnimationFrame\<close> for as long as it re-schedules
  itself. The loop is run to its end here: the result is the list of momentum values
  added to the offset, one per frame, and the instance after the last frame.
\<close>

function momentumAnimation :: "real \<Rightarrow> carousel \<Rightarrow> real list \<times> carousel" where
  "momentumAnimation momentum c =
     (if \<bar>momentum\<bar> < 0.1 then ([], c)
      else
        let c1 = updateTransform (c\<lparr>offset := offset c + momentum\<rparr>);
            r = momentumAnimation (momentum * 0.95) c1
        in (momentum # fst r, snd r))"
  by pat_completeness auto
termination
proof (relation "measure (\<lambda>(m, c). nat \<lceil>1000 * \<bar>m\<bar>\<rceil>)", goal_cases)
  case 1
  show ?case by simp
next
  case (2 momentum c x)
  then have big: "1 / 10 \<le> \<bar>momentum\<bar>"
    by simp
  have "1000 * \<bar>momentum * 0.95\<bar> = 1000 * \<bar>momentum\<bar> - 50 * \<bar>momentum\<bar>"
    by (simp add: abs_mult)
  also have "\<dots> \<le> 1000 * \<bar>momentum\<bar> - 5"
    using big by simp
  finally have "\<lceil>1000 * \<bar>momentum * 0.95\<bar>\<rceil> \<le> \<lceil>1000 * \<bar>momentum\<bar> - 5\<rceil>"
    by (rule ceiling_mono)
  also have "\<dots> = \<lceil>1000 * \<bar>momentum\<bar>\<rceil> - 5"
    by (metis ceiling_diff_numeral)
  finally have less: "\<lceil>1000 * \<bar>momentum * 0.95\<bar>\<rceil> < \<lceil>1000 * \<bar>momentum\<bar>\<rceil>"
    by linarith
  have "0 \<le> \<lceil>1000 * \<bar>momentum * 0.95\<bar>\<rceil>"
    by (rule order_trans [of _ "\<lceil>0::real\<rceil>"]) (simp, rule ceiling_mono, simp)
  moreover have "\<And>a b :: int. a < b \<Longrightarrow> 0 \<le> a \<Longrightarrow> nat a < nat b"
    by simp
  ultimately have "nat \<lceil>1000 * \<bar>momentum * 0.95\<bar>\<rceil> < nat \<lceil>1000 * \<bar>momentum\<bar>\<rceil>"
    using less by blast
  then show ?case
    by (simp only: in_measure prod.case)
qed

declare momentumAnimation.simps [simp del]

definition addMomentum :: "carousel \<Rightarrow> real list \<times> carousel" where
  "addMomentum c =
     (let dragVelocity = (lastX c - startX c) * 0.1
      in momentumAnimation dragVelocity c)"

text \<open>
  \<^verbatim>\<open>handlePointerUp\<close> returns the momentum frames it started together with the
  instance; the \<^verbatim>\<open>setTimeout\<close> callback it leaves behind is \<open>dragTimer\<close>.
\<close>

definition handlePointerUp :: "carousel \<Rightarrow> real list \<times> carousel" where
  "handlePointerUp c =
     (if \<not> dragging c then ([], c)
      else
        let c1 = c\<lparr>dragging := False\<rparr>;
            c2 = c1\<lparr>classes := classes c1 - {''rbc-dragging''}, cursor := []\<rparr>;
            dragDistance = \<bar>lastX c2 - startX c2\<bar>;
            r = (if dragDistance > 50 then addMomentum c2 else ([], c2))
        in (fst r, track ''drag_end'' (snd r)))"

definition dragTimer :: "env \<Rightarrow> carousel \<Rightarrow> carousel" where
  "dragTimer e c = (if autoplay (config c) \<and> visible c then resume e c else c)"

subsection \<open>Keyboard and discrete navigation\<close>

text \<open>
  The argument of \<^verbatim>\<open>navigateTo\<close>: the strings \<^verbatim>\<open>'prev'\<close> and \<^verbatim>\<open>'next'\<close>, or a
  number. The call sites pass nothing else.
\<close>

datatype nav = Prev | Next | Index int

definition focusSlide :: "int \<Rightarrow> carousel \<Rightarrow> carousel" where
  "focusSlide index c =
     (let c1 = c\<lparr>tabStop := None\<rparr> in
      if 0 \<le> index \<and> index < int (length (slides c1))
      then c1\<lparr>tabStop := Some index, focusedSlide := Some index\<rparr>
      else c1)"

definition announceSlide :: "int \<Rightarrow> carousel \<Rightarrow> carousel" where
  "announceSlide index c =
     (if 0 \<le> index \<and> index < int (length (slides c))
      then c\<lparr>announcements := announcements c @ [(index + 1, int (length (slides c)))]\<rparr>
      else c)"

definition navigateTo :: "nav \<Rightarrow> carousel \<Rightarrow> carousel" where
  "navigateTo d c =
     (let targetIndex = (case d of
                           Index n \<Rightarrow> n
                         | Prev \<Rightarrow> currentSlideIndex c - 1
                         | Next \<Rightarrow> currentSlideIndex c + 1);
          targetIndex' = clamp targetIndex 0 (int (length (slides c)) - 1)
      in if targetIndex' \<noteq> currentSlideIndex c
         then announceSlide targetIndex'
                (focusSlide targetIndex' (c\<lparr>currentSlideIndex := targetIndex'\<rparr>))
         else c)"

definition handleKeyDown :: "env \<Rightarrow> string \<Rightarrow> carousel \<Rightarrow> carousel" where
  "handleKeyDown e key c =
     (if \<not> keyboardEnabled (config c) then c
      else if key = ''ArrowLeft'' then navigateTo Prev c
      else if key = ''ArrowRight'' then navigateTo Next c
      else if key = '' '' then (if playing c then pause c else resume e c)
      else if key = ''Home'' then navigateTo (Index 0) c
      else if key = ''End'' then navigateTo (Index (int (length (slides c)) - 1)) c
      else c)"

subsection \<open>Lifecycle and observers\<close>

text \<open>
  The part of \<^verbatim>\<open>init()\<close> after \<^verbatim>\<open>await this.waitForImages()\<close>. \<^verbatim>\<open>setupStructure\<close>
  empties the track and reads the slides; \<^verbatim>\<open>measureDimensions\<close> only schedules its
  frame callback (see above); listeners and observers are attached.
\<close>

definition setupStructure :: "element \<Rightarrow> carousel \<Rightarrow> carousel" where
  "setupStructure el c =
     (let c1 = c\<lparr>attachedClones := 0, slides := contentChildren el\<rparr>
      in c1\<lparr>tabStop := (if slides c1 = [] then None else Some 0)\<rparr>)"

definition init :: "element \<Rightarrow> env \<Rightarrow> carousel \<Rightarrow> carousel" where
  "init el e c =
     (let c1 = createClones (setupStructure el c);
          c2 = c1\<lparr>observing := True\<rparr>;
          c3 = c2\<lparr>initialized := True\<rparr>;
          c4 = c3\<lparr>classes := insert ''rbc-ready'' (classes c3 - {''rbc-initializing''})\<rparr>;
          c5 = (if autoplay (config c4) \<and> \<not> reducedMotion (config c4) then play e c4 else c4)
      in track ''init'' (dispatchEvent ''ready'' c5))"

text \<open>The callback of the intersection observer, for one entry.\<close>

definition handleIntersection :: "env \<Rightarrow> bool \<Rightarrow> carousel \<Rightarrow> carousel" where
  "handleIntersection e isIntersecting c =
     (let c1 = c\<lparr>visible := isIntersecting\<rparr> in
      if isIntersecting \<and> autoplay (config c1) \<and> \<not> reducedMotion (config c1)
      then resume e c1 else pause c1)"

definition handleVisibilityChange :: "env \<Rightarrow> carousel \<Rightarrow> carousel" where
  "handleVisibilityChange e c =
     (if hidden e then pause c
      else if autoplay (config c) \<and> visible c then resume e c
      else c)"

text \<open>
  \<^verbatim>\<open>handleResize\<close> (behind its debounce wrapper); the measurement it asks for runs in
  a later frame callback.
\<close>

definition handleResize :: "env \<Rightarrow> carousel \<Rightarrow> carousel" where
  "handleResize e c =
     (if \<not> initialized c then c
      else
        let c1 = createClones c
        in if playing c1 then play e c1 else c1)"

definition enableStaticMode :: "carousel \<Rightarrow> carousel" where
  "enableStaticMode c = c\<lparr>classes := insert ''rbc-static-mode'' (classes c)\<rparr>"

definition disableStaticMode :: "carousel \<Rightarrow> carousel" where
  "disableStaticMode c = c\<lparr>classes := classes c - {''rbc-static-mode''}\<rparr>"

text \<open>The listener on the reduced-motion media query; \<open>m\<close> is \<^verbatim>\<open>e.matches\<close>.\<close>

definition handleReducedMotion :: "env \<Rightarrow> bool \<Rightarrow> carousel \<Rightarrow> carousel" where
  "handleReducedMotion e m c =
     (let c1 = c\<lparr>config := (config c)\<lparr>reducedMotion := m\<rparr>\<rparr> in
      if m then enableStaticMode (pause c1)
      else
        let c2 = disableStaticMode c1
        in if autoplay (config c2) then play e c2 else c2)"

definition destroy :: "bool \<Rightarrow> carousel \<Rightarrow> carousel" where
  "destroy removeListeners c =
     (let c1 = pause c;
          c2 = c1\<lparr>observing := False\<rparr>;
          c3 = c2\<lparr>classes := classes c2
                     - {''rbc-ready'', ''is-paused'', ''rbc-dragging'', ''rbc-static-mode''},
                  cursor := [],
                  transform := NoTransform\<rparr>;
          c4 = c3\<lparr>attachedClones := 0\<rparr>
      in dispatchEvent ''destroy'' c4)"

text \<open>
  \<^verbatim>\<open>reinitialize\<close> destroys without removing listeners; the timer it sets runs
  \<^verbatim>\<open>init()\<close> later. \<^verbatim>\<open>updateConfig(newConfig)\<close> replaces the configuration by
  \<^verbatim>\<open>{ ...this.config, ...newConfig }\<close>, given here as the function that overrides the
  fields present in \<^verbatim>\<open>newConfig\<close>, and reinitialises.
\<close>

definition reinitialize :: "carousel \<Rightarrow> carousel" where
  "reinitialize c = destroy False c"

definition updateConfig :: "(config \<Rightarrow> config) \<Rightarrow> carousel \<Rightarrow> carousel" where
  "updateConfig newConfig c = reinitialize (c\<lparr>config := newConfig (config c)\<rparr>)"

subsection \<open>The instance driven by the browser\<close>

text \<open>
  Everything that can call into an instance once it is constructed: the continuation of
  \<^verbatim>\<open>init()\<close> (also after \<^verbatim>\<open>reinitialize\<close>), the measuring frame callback, a frame
  callback of \<^verbatim>\<open>animate\<close>, the control buttons and the theme-editor hooks
  (\<^verbatim>\<open>play\<close>, \<^verbatim>\<open>pause\<close>, \<^verbatim>\<open>resume\<close>, \<^verbatim>\<open>navigateTo\<close>), hover and focus
  (\<^verbatim>\<open>pause\<close>, \<^verbatim>\<open>resume\<close>), the observers, the pointer and key listeners, the timer that
  \<^verbatim>\<open>handlePointerUp\<close> sets, the media-query listener, \<^verbatim>\<open>destroy\<close>, the mutation
  observer (\<^verbatim>\<open>reinitialize\<close>) and \<^verbatim>\<open>updateConfig\<close>.
\<close>

datatype event =
    EvInit element
  | EvMeasure
  | EvFrame nat real
  | EvPlay
  | EvPause
  | EvResume
  | EvNavigate nav
  | EvIntersection bool
  | EvVisibilityChange
  | EvResize
  | EvPointerDown real bool
  | EvPointerMove real
  | EvPointerUp
  | EvDragTimer
  | EvKeyDown string
  | EvReducedMotion bool
  | EvDestroy bool
  | EvReinitialize
  | EvUpdateConfig "config \<Rightarrow> config"

fun step :: "env \<Rightarrow> event \<Rightarrow> carousel \<Rightarrow> carousel" where
  "step e (EvInit el) c = init el e c"
| "step e EvMeasure c = measureDimensions e c"
| "step e (EvFrame handle timestamp) c = frame e handle timestamp c"
| "step e EvPlay c = play e c"
| "step e EvPause c = pause c"
| "step e EvResume c = resume e c"
| "step e (EvNavigate d) c = navigateTo d c"
| "step e (EvIntersection b) c = handleIntersection e b c"
| "step e EvVisibilityChange c = handleVisibilityChange e c"
| "step e EvResize c = handleResize e c"
| "step e (EvPointerDown x onInteractive) c = handlePointerDown x onInteractive c"
| "step e (EvPointerMove x) c = handlePointerMove x c"
| "step e EvPointerUp c = snd (handlePointerUp c)"
| "step e EvDragTimer c = dragTimer e c"
| "step e (EvKeyDown key) c = handleKeyDown e key c"
| "step e (EvReducedMotion m) c = handleReducedMotion e m c"
| "step e (EvDestroy removeListeners) c = destroy removeListeners c"
| "step e EvReinitialize c = reinitialize c"
| "step e (EvUpdateConfig newConfig) c = updateConfig newConfig c"

text \<open>A history: each event with the environment it happens in, oldest first.\<close>

fun run :: "(env \<times> event) list \<Rightarrow> carousel \<Rightarrow> carousel" where
  "run [] c = c"
| "run ((e, ev) # rest) c = run rest (step e ev c)"

subsection \<open>Instance management\<close>

text \<open>
  \<^verbatim>\<open>new AdvancedReviewCarousel(element)\<close>: when the track or the content block is
  missing the constructor logs and returns before \<^verbatim>\<open>config\<close> and \<^verbatim>\<open>state\<close> exist;
  the object is still returned by \<^verbatim>\<open>new\<close>.
\<close>

datatype carousel_object = Aborted | Built carousel

datatype js_error = TypeError

definition construct :: "element \<Rightarrow> env \<Rightarrow> carousel_object" where
  "construct el e =
     (if \<not> hasTrack el \<or> \<not> hasContent el then Aborted else Built (newCarousel el e))"

text \<open>
  The method \<^verbatim>\<open>destroy\<close> on an instance object. Its first statement is
  \<^verbatim>\<open>this.pause()\<close>, which reads \<^verbatim>\<open>this.state.playing\<close>: on an object without
  \<^verbatim>\<open>state\<close> that read throws before anything is changed.
\<close>

definition destroyInstance :: "bool \<Rightarrow> carousel_object \<Rightarrow> js_error + carousel_object" where
  "destroyInstance removeListeners i =
     (case i of
        Aborted \<Rightarrow> Inl TypeError
      | Built c \<Rightarrow> Inr (Built (destroy removeListeners c)))"

text \<open>
  The page: the registry \<^verbatim>\<open>instances\<close> (a \<^verbatim>\<open>WeakMap\<close> from elements to instance
  objects; elements and objects are named by numbers), the instance objects themselves,
  which outlive their registry entry, and the next unused object name.
\<close>

record page =
  instances :: "nat \<rightharpoonup> nat"
  objects :: "nat \<Rightarrow> carousel_object"
  nextObject :: nat

definition initCarousel :: "nat \<Rightarrow> element \<Rightarrow> env \<Rightarrow> page \<Rightarrow> nat \<times> page"
  where
  "initCarousel elem el e p =
     (case instances p elem of
        Some i \<Rightarrow> (i, p)
      | None \<Rightarrow>
          let i = nextObject p
          in (i, p\<lparr>objects := (objects p)(i := construct el e),
                   instances := (instances p)(elem \<mapsto> i),
                   nextObject := Suc i\<rparr>))"

definition destroyCarousel :: "nat \<Rightarrow> page \<Rightarrow> js_error + page" where
  "destroyCarousel elem p =
     (case instances p elem of
        None \<Rightarrow> Inr p
      | Some i \<Rightarrow>
          (case destroyInstance True (objects p i) of
             Inl err \<Rightarrow> Inl err
           | Inr inst \<Rightarrow>
               Inr (p\<lparr>objects := (objects p)(i := inst),
                      instances := (instances p)(elem := None)\<rparr>)))"


section \<open>Properties of states and of frame sequences\<close>


text \<open>Each value of the list is smaller in magnitude than the one before it.\<close>

fun decreasingMagnitude :: "real list \<Rightarrow> bool" where
  "decreasingMagnitude (x # y # rest) = (\<bar>y\<bar> < \<bar>x\<bar> \<and> decreasingMagnitude (y # rest))"
| "decreasingMagnitude _ = True"

text \<open>Each value of the list is the one before it times the friction factor.\<close>

fun frictionChain :: "real list \<Rightarrow> bool" where
  "frictionChain (x # y # rest) = (y = x * 0.95 \<and> frictionChain (y # rest))"
| "frictionChain _ = True"

text \<open>
  The invariant of the frame loop: handles are positive, and either no callback of
  \<^verbatim>\<open>animate\<close> is pending, or the instance is playing and exactly one is pending, the
  one whose handle \<^verbatim>\<open>animationId\<close> holds. \<open>loopView\<close> collects the fields it reads.
\<close>

definition loopInv :: "carousel \<Rightarrow> bool" where
  "loopInv c =
     (0 < rafNext c
      \<and> (rafQueue c = []
           \<or> (playing c \<and> length (rafQueue c) = 1
               \<and> animationId c = Some (hd (rafQueue c))
               \<and> 0 < hd (rafQueue c) \<and> hd (rafQueue c) < rafNext c)))"

definition loopView :: "carousel \<Rightarrow> bool \<times> nat option \<times> nat list \<times> nat" where
  "loopView c = (playing c, animationId c, rafQueue c, rafNext c)"

section \<open>Concrete inputs\<close>

text \<open>
  A desktop-width, left-to-right window with no reduced-motion preference, the same with
  the preference set, and the same in a right-to-left document.
\<close>

definition desktop :: env where
  "desktop = \<lparr> innerWidth = 1024, rtl = False, hidden = False,
               prefersReducedMotion = False, now = 1000, nowAnimate = 1000 \<rparr>"

definition desktopReduced :: env where
  "desktopReduced = desktop\<lparr>prefersReducedMotion := True\<rparr>"

definition desktopRtl :: env where
  "desktopRtl = desktop\<lparr>rtl := True\<rparr>"

text \<open>
  Wrapper elements with no data attributes: one with three slides of 300 pixels, one with
  a single slide of 20 pixels, one whose content block has no children, and one without
  the track element.
\<close>

definition threeSlides :: element where
  "threeSlides = \<lparr> hasTrack = True, hasContent = True, dataset = Map.empty,
                   contentChildren = [300, 300, 300] \<rparr>"

definition oneSlide :: element where
  "oneSlide = \<lparr> hasTrack = True, hasContent = True, dataset = Map.empty,
                contentChildren = [20] \<rparr>"

definition noSlides :: element where
  "noSlides = \<lparr> hasTrack = True, hasContent = True, dataset = Map.empty,
                contentChildren = [] \<rparr>"

definition noTrack :: element where
  "noTrack = \<lparr> hasTrack = False, hasContent = True, dataset = Map.empty,
               contentChildren = [300, 300, 300] \<rparr>"

definition emptyPage :: page where
  "emptyPage = \<lparr> instances = Map.empty, objects = (\<lambda>_. Aborted), nextObject = 0 \<rparr>"

text \<open>
  Three slides with \<^verbatim>\<open>data-scroll-speed="1"\<close>, and one slide of 1000 pixels with
  \<^verbatim>\<open>data-scroll-speed="1"\<close> and \<^verbatim>\<open>data-gap="-990"\<close>.
\<close>

definition fastSlides :: element where
  "fastSlides = \<lparr> hasTrack = True, hasContent = True,
                  dataset = [''scrollSpeed'' \<mapsto> ''1''],
                  contentChildren = [300, 300, 300] \<rparr>"

definition negativeGap :: element where
  "negativeGap = \<lparr> hasTrack = True, hasContent = True,
                   dataset = [''scrollSpeed'' \<mapsto> ''1'', ''gap'' \<mapsto> ''-990''],
                   contentChildren = [1000] \<rparr>"

text \<open>
  Histories. \<open>startTrace\<close>: the instance is initialised and measured, scrolls out of
  view and back in, which starts the frame loop with handle 1. \<open>frames e n\<close>: the
  callbacks with handles 1 to \<open>n\<close> run one after the other, 34 milliseconds apart.
  \<open>midDrag\<close>: a pointer goes down at 0 and moves to 1000. \<open>dragRelease\<close>: a pointer goes
  down at 0, moves to 50 and is released; the timer set by the release fires and one frame
  runs.
\<close>

definition startTrace :: "element \<Rightarrow> env \<Rightarrow> (env \<times> event) list" where
  "startTrace el e =
     [(e, EvInit el), (e, EvMeasure), (e, EvIntersection False), (e, EvIntersection True)]"




text \<open>
  States. \<open>ready\<close>: three slides, just initialised. \<open>dragged x\<close>: \<open>ready\<close> with a
  pointer down at 0 and moved to \<open>x\<close>. \<open>pausedVisible\<close>: \<open>ready\<close>, scrolled into view
  and paused. \<open>pausedReduced\<close>: initialised under the reduced-motion preference and
  scrolled into view, which pauses it.
\<close>

definition ready :: carousel where
  "ready = init threeSlides desktop (newCarousel threeSlides desktop)"

definition dragged :: "real \<Rightarrow> carousel" where
  "dragged x = handlePointerMove x (handlePointerDown 0 False ready)"

definition pausedVisible :: carousel where
  "pausedVisible = pause (handleIntersection desktop True ready)"

definition pausedReduced :: carousel where
  "pausedReduced =
     handleIntersection desktopReduced True
       (init threeSlides desktopReduced (newCarousel threeSlides desktopReduced))"


definition started :: carousel where
  "started = run (startTrace threeSlides desktop) (newCarousel threeSlides desktop)"

text \<open>
  An element with \<^verbatim>\<open>data-autoplay="false"\<close>, initialised and scrolled into view; and
  \<open>ready\<close> paused while still out of view.
\<close>

definition manualStart :: element where
  "manualStart = \<lparr> hasTrack = True, hasContent = True,
                   dataset = [''autoplay'' \<mapsto> ''false''],
                   contentChildren = [300, 300, 300] \<rparr>"

definition pausedManual :: carousel where
  "pausedManual =
     handleIntersection desktop True
       (init manualStart desktop (newCarousel manualStart desktop))"

definition pausedHidden :: carousel where
  "pausedHidden = pause ready"

text \<open>
  Two calls of \<^verbatim>\<open>destroyCarousel\<close> on the same element, one after the other, by a
  caller that catches what the first call throws: the results of both calls. A call that
  throws leaves the page as it was.
\<close>

definition destroyTwice :: "nat \<Rightarrow> page \<Rightarrow> (js_error + page) \<times> (js_error + page)" where
  "destroyTwice elem p =
     (let r1 = destroyCarousel elem p;
          p1 = (case r1 of Inl err \<Rightarrow> p | Inr q \<Rightarrow> q)
      in (r1, destroyCarousel elem p1))"

section \<open>Header overlap: results\<close>

text \<open>
  C2. With a hero region present, the overlap test holds exactly when the hero's top
  edge is above the header's bottom edge and the hero's bottom edge is below the
  header's top edge; \<^verbatim>\<open>updateState\<close> then leaves the header in the transparent visual
  state, and otherwise in the solid visual state.
\<close>

theorem updateState_overlap:
  "(overlapping (Some hero) hdr \<longleftrightarrow> rect_top hero < rect_bottom hdr \<and> rect_bottom hero > rect_top hdr)
   \<and> (if overlapping (Some hero) hdr
      then transparentState (updateState (Some hero) hdr d)
           \<and> \<not> solidState (updateState (Some hero) hdr d)
      else solidState (updateState (Some hero) hdr d)
           \<and> \<not> transparentState (updateState (Some hero) hdr d))"
  by (simp add: overlapping_def updateState_def transparentState_def solidState_def Let_def)

theorem updateState_overlap_witness:
  "overlapping (Some \<lparr>rect_top = 0, rect_bottom = 500\<rparr>) \<lparr>rect_top = 0, rect_bottom = 80\<rparr>
   \<and> transparentState
        (updateState (Some \<lparr>rect_top = 0, rect_bottom = 500\<rparr>)
           \<lparr>rect_top = 0, rect_bottom = 80\<rparr>
           \<lparr>wrapperClasses = {''is-solid''}, rootClasses = {}, rafId = Some 1\<rparr>)
   \<and> \<not> overlapping (Some \<lparr>rect_top = - 510, rect_bottom = - 10\<rparr>)
         \<lparr>rect_top = 0, rect_bottom = 80\<rparr>
   \<and> solidState
        (updateState (Some \<lparr>rect_top = - 510, rect_bottom = - 10\<rparr>)
           \<lparr>rect_top = 0, rect_bottom = 80\<rparr>
           \<lparr>wrapperClasses = {''is-transparent''}, rootClasses = {''header-overlap''},
            rafId = Some 1\<rparr>)"
proof -
  let ?hdr = "\<lparr>rect_top = 0, rect_bottom = 80\<rparr>"
  let ?h1 = "\<lparr>rect_top = 0, rect_bottom = 500\<rparr>"
  let ?h2 = "\<lparr>rect_top = - 510, rect_bottom = - 10\<rparr>"
  let ?d1 = "\<lparr>wrapperClasses = {''is-solid''}, rootClasses = {}, rafId = Some 1\<rparr>"
  let ?d2 = "\<lparr>wrapperClasses = {''is-transparent''}, rootClasses = {''header-overlap''},
            rafId = Some 1\<rparr>"
  have a: "overlapping (Some ?h1) ?hdr"
    using updateState_overlap [of ?h1 ?hdr ?d1] by simp
  have b: "\<not> overlapping (Some ?h2) ?hdr"
    using updateState_overlap [of ?h2 ?hdr ?d2] by simp
  have c: "transparentState (updateState (Some ?h1) ?hdr ?d1)"
    using updateState_overlap [of ?h1 ?hdr ?d1] a by presburger
  have d: "solidState (updateState (Some ?h2) ?hdr ?d2)"
    using updateState_overlap [of ?h2 ?hdr ?d2] b by presburger
  from a b c d show ?thesis by blast
qed

section \<open>Configuration: results\<close>

text \<open>
  C10. Each boolean flag of the configuration (autoplay, pause-on-hover, drag-enabled,
  keyboard-enabled) is false exactly when the corresponding data attribute is present
  with the value \<^verbatim>\<open>false\<close>; an absent attribute and every other value give true.
\<close>

theorem parseConfig_flags:
  "(autoplay (parseConfig el e) = False \<longleftrightarrow> dataset el ''autoplay'' = Some ''false'')
   \<and> (pauseOnHover (parseConfig el e) = False \<longleftrightarrow> dataset el ''pauseOnHover'' = Some ''false'')
   \<and> (dragEnabled (parseConfig el e) = False \<longleftrightarrow> dataset el ''dragEnabled'' = Some ''false'')
   \<and> (keyboardEnabled (parseConfig el e) = False
        \<longleftrightarrow> dataset el ''keyboardEnabled'' = Some ''false'')"
  by (simp add: parseConfig_def)

section \<open>Evaluating the concrete inputs\<close>

lemmas parse_defs = parseConfig_def numOr_def strOr_def parseIntAttr_def parseInt_def
  isWhiteSpace_def stripSign_def stripPrefix_def radixDigit_def digitValue_def

lemmas op_defs = newCarousel_def init_def setupStructure_def createClones_def play_def
  pause_def resume_def animate_def wrapOffset_def wrapPoint_def activeGap_def
  updateTransform_def requestAnimationFrame_def cancelAnimationFrame_def track_def
  dispatchEvent_def handlePointerDown_def handlePointerMove_def handleIntersection_def
  measureDimensions_def speedDivisor_def frame_def dragTimer_def

lemmas input_defs = desktop_def desktopReduced_def desktopRtl_def threeSlides_def
  oneSlide_def noSlides_def fastSlides_def negativeGap_def manualStart_def

lemma ready_value:
  "ready =
   \<lparr> config = \<lparr> speed = 60, direction = ''left'', pauseOnHover = True, autoplay = True,
                gap = 24, gapMobile = 16, dragEnabled = True, keyboardEnabled = True,
                imageStrategy = ''lazy'', reducedMotion = False \<rparr>,
     initialized = True, playing = True, visible = False, dragging = False,
     offset = 0, velocity = 0, baseWidth = 0, cloneCount = 3,
     animationId = None, lastTimestamp = 0, slides = [300, 300, 300],
     clones = 3, currentSlideIndex = 0, startX = 0, lastX = 0,
     classes = {''rbc-ready''}, cursor = [], transform = NoTransform,
     attachedClones = 3, tabStop = Some 0, focusedSlide = None,
     announcements = [], dispatched = [''ready''], tracked = [''init''],
     observing = True, rafQueue = [], rafNext = 1 \<rparr>"
  by (simp add: ready_def op_defs parse_defs input_defs)


lemma started_value:
  "started =
   \<lparr> config = \<lparr> speed = 60, direction = ''left'', pauseOnHover = True, autoplay = True,
                gap = 24, gapMobile = 16, dragEnabled = True, keyboardEnabled = True,
                imageStrategy = ''lazy'', reducedMotion = False \<rparr>,
     initialized = True, playing = True, visible = True, dragging = False,
     offset = 0, velocity = 79 / 5, baseWidth = 948, cloneCount = 3,
     animationId = Some 1, lastTimestamp = 1000, slides = [300, 300, 300],
     clones = 3, currentSlideIndex = 0, startX = 0, lastX = 0,
     classes = {''rbc-ready''}, cursor = [], transform = Translate3d 0,
     attachedClones = 3, tabStop = Some 0, focusedSlide = None,
     announcements = [], dispatched = [''ready'', ''pause'', ''play''],
     tracked = [''init'', ''pause'', ''play''],
     observing = True, rafQueue = [1], rafNext = 2 \<rparr>"
  by (simp add: started_def startTrace_def op_defs parse_defs input_defs)

lemma pausedVisible_fields:
  "initialized pausedVisible" "keyboardEnabled (config pausedVisible)"
  "\<not> playing pausedVisible" "autoplay (config pausedVisible)" "visible pausedVisible"
  "\<not> reducedMotion (config pausedVisible)"
  by (simp_all add: pausedVisible_def ready_value op_defs)

lemma pausedReduced_fields:
  "initialized pausedReduced" "keyboardEnabled (config pausedReduced)"
  "\<not> playing pausedReduced" "autoplay (config pausedReduced)" "visible pausedReduced"
  "reducedMotion (config pausedReduced)"
  by (simp_all add: pausedReduced_def op_defs parse_defs input_defs)

lemma pausedHidden_fields:
  "initialized pausedHidden" "keyboardEnabled (config pausedHidden)"
  "\<not> playing pausedHidden" "autoplay (config pausedHidden)" "\<not> visible pausedHidden"
  "\<not> reducedMotion (config pausedHidden)"
  by (simp_all add: pausedHidden_def ready_value op_defs)

lemma pausedManual_fields:
  "initialized pausedManual" "keyboardEnabled (config pausedManual)"
  "\<not> playing pausedManual" "\<not> autoplay (config pausedManual)" "visible pausedManual"
  "\<not> reducedMotion (config pausedManual)"
  by (simp_all add: pausedManual_def op_defs parse_defs input_defs)

lemma dragged_fields:
  "dragging (dragged x)" "startX (dragged x) = 0" "lastX (dragged x) = x"
  by (simp_all add: dragged_def ready_value op_defs)


section \<open>Measuring: results\<close>



section \<open>Keyboard and discrete navigation: results\<close>






section \<open>The space key: results\<close>

text \<open>
  C7, as amended. On an initialised instance with keyboard navigation enabled, the space
  key pauses an instance that is playing, and starts one that is paused when autoplay is
  enabled, the element is visible and reduced motion is not requested.
\<close>

theorem space_key_toggle:
  assumes "initialized c" and "keyboardEnabled (config c)"
  shows "(playing c \<longrightarrow> \<not> playing (handleKeyDown e '' '' c))
    \<and> (\<not> playing c \<and> autoplay (config c) \<and> visible c \<and> \<not> reducedMotion (config c)
         \<longrightarrow> playing (handleKeyDown e '' '' c))"
  using assms
  by (simp add: handleKeyDown_def pause_def resume_def play_def animate_def Let_def
      track_def dispatchEvent_def requestAnimationFrame_def cancelAnimationFrame_def
      updateTransform_def wrapOffset_def split: option.split)

theorem space_key_toggle_witness:
  "initialized started \<and> keyboardEnabled (config started) \<and> playing started
   \<and> \<not> playing (handleKeyDown desktop '' '' started)
   \<and> initialized pausedVisible \<and> keyboardEnabled (config pausedVisible)
   \<and> \<not> playing pausedVisible \<and> autoplay (config pausedVisible) \<and> visible pausedVisible
   \<and> \<not> reducedMotion (config pausedVisible)
   \<and> playing (handleKeyDown desktop '' '' pausedVisible)"
proof -
  have a: "initialized started" "keyboardEnabled (config started)" "playing started"
    by (simp_all add: started_value)
  from space_key_toggle [OF a(1,2), of desktop] a(3)
  have "\<not> playing (handleKeyDown desktop '' '' started)"
    by blast
  moreover from space_key_toggle [OF pausedVisible_fields(1,2), of desktop]
    pausedVisible_fields(3-6)
  have "playing (handleKeyDown desktop '' '' pausedVisible)"
    by blast
  ultimately show ?thesis
    using a pausedVisible_fields by blast
qed

text \<open>
  C7 as stated fails: a paused, initialised instance stays paused under the space key
  when reduced motion is requested, when the element is out of view, and when autoplay
  is disabled.
\<close>

theorem space_key_stays_paused:
  "initialized pausedReduced \<and> keyboardEnabled (config pausedReduced)
   \<and> \<not> playing pausedReduced
   \<and> \<not> playing (handleKeyDown desktopReduced '' '' pausedReduced)
   \<and> initialized pausedHidden \<and> keyboardEnabled (config pausedHidden)
   \<and> \<not> playing pausedHidden
   \<and> \<not> playing (handleKeyDown desktop '' '' pausedHidden)
   \<and> initialized pausedManual \<and> keyboardEnabled (config pausedManual)
   \<and> \<not> playing pausedManual
   \<and> \<not> playing (handleKeyDown desktop '' '' pausedManual)"
  using pausedReduced_fields pausedHidden_fields pausedManual_fields
  by (simp add: handleKeyDown_def resume_def)

section \<open>Momentum: results\<close>

lemma momentum_frames_nil: "\<bar>m\<bar> < 0.1 \<Longrightarrow> fst (momentumAnimation m c) = []"
  by (subst momentumAnimation.simps) simp

lemma momentum_frames_cons:
  "\<not> \<bar>m\<bar> < 0.1 \<Longrightarrow>
   fst (momentumAnimation m c)
     = m # fst (momentumAnimation (m * 0.95) (updateTransform (c\<lparr>offset := offset c + m\<rparr>)))"
  by (subst momentumAnimation.simps) (simp add: Let_def)

lemma momentum_frames_hd:
  "fst (momentumAnimation m c) \<noteq> [] \<Longrightarrow> hd (fst (momentumAnimation m c)) = m"
proof (cases "\<bar>m\<bar> < 0.1")
  case True
  assume "fst (momentumAnimation m c) \<noteq> []"
  with momentum_frames_nil [OF True, of c] show ?thesis
    by blast
next
  case False
  show ?thesis
    by (subst momentum_frames_cons [OF False]) simp
qed

lemma decreasingMagnitude_Cons:
  "decreasingMagnitude xs \<Longrightarrow> xs = [] \<or> \<bar>hd xs\<bar> < \<bar>x\<bar> \<Longrightarrow> decreasingMagnitude (x # xs)"
  by (cases xs) auto

lemma frictionChain_Cons:
  "frictionChain xs \<Longrightarrow> xs = [] \<or> hd xs = x * 0.95 \<Longrightarrow> frictionChain (x # xs)"
  by (cases xs) auto

lemma momentum_decreasing: "decreasingMagnitude (fst (momentumAnimation m c))"
proof (induction m c rule: momentumAnimation.induct)
  case (1 m c)
  show ?case
  proof (cases "\<bar>m\<bar> < 0.1")
    case True
    then show ?thesis by (simp add: momentum_frames_nil)
  next
    case False
    let ?rest = "fst (momentumAnimation (m * 0.95) (updateTransform (c\<lparr>offset := offset c + m\<rparr>)))"
    have ih: "decreasingMagnitude ?rest"
      using 1 False by simp
    have lt: "\<bar>m * 0.95\<bar> < \<bar>m\<bar>"
      using False by (simp add: abs_mult)
    have "?rest = [] \<or> \<bar>hd ?rest\<bar> < \<bar>m\<bar>"
    proof (cases "?rest = []")
      case True
      then show ?thesis by blast
    next
      case False
      then have h: "hd ?rest = m * 0.95"
        by (rule momentum_frames_hd)
      from lt have "\<bar>hd ?rest\<bar> < \<bar>m\<bar>"
        by (subst h)
      then show ?thesis by blast
    qed
    with ih have "decreasingMagnitude (m # ?rest)"
      by (rule decreasingMagnitude_Cons)
    then show ?thesis
      using False by (subst momentum_frames_cons [OF False]) simp
  qed
qed

lemma momentum_chain: "frictionChain (fst (momentumAnimation m c))"
proof (induction m c rule: momentumAnimation.induct)
  case (1 m c)
  show ?case
  proof (cases "\<bar>m\<bar> < 0.1")
    case True
    then show ?thesis by (simp add: momentum_frames_nil)
  next
    case False
    let ?rest = "fst (momentumAnimation (m * 0.95) (updateTransform (c\<lparr>offset := offset c + m\<rparr>)))"
    have ih: "frictionChain ?rest"
      using 1 False by simp
    have "?rest = [] \<or> hd ?rest = m * 0.95"
      using momentum_frames_hd [of "m * 0.95"] by blast
    with ih have "frictionChain (m # ?rest)"
      by (rule frictionChain_Cons)
    then show ?thesis
      using False by (subst momentum_frames_cons [OF False]) simp
  qed
qed

lemma momentum_length: "length (fst (momentumAnimation m c)) \<le> nat \<lceil>200 * \<bar>m\<bar>\<rceil>"
proof (induction m c rule: momentumAnimation.induct)
  case (1 m c)
  show ?case
  proof (cases "\<bar>m\<bar> < 0.1")
    case True
    then show ?thesis by (simp add: momentum_frames_nil)
  next
    case False
    let ?rest = "fst (momentumAnimation (m * 0.95) (updateTransform (c\<lparr>offset := offset c + m\<rparr>)))"
    have ih: "length ?rest \<le> nat \<lceil>200 * \<bar>m * 0.95\<bar>\<rceil>"
      using 1 False by simp
    have "200 * \<bar>m * 0.95\<bar> + 1 = 200 * \<bar>m\<bar> - 10 * \<bar>m\<bar> + 1"
      by (simp add: abs_mult)
    also have "\<dots> \<le> 200 * \<bar>m\<bar>"
      using False by simp
    finally have "\<lceil>200 * \<bar>m * 0.95\<bar> + 1\<rceil> \<le> \<lceil>200 * \<bar>m\<bar>\<rceil>"
      by (rule ceiling_mono)
    then have a: "\<lceil>200 * \<bar>m * 0.95\<bar>\<rceil> + 1 \<le> \<lceil>200 * \<bar>m\<bar>\<rceil>"
      by (simp only: ceiling_add_one)
    have b: "0 \<le> \<lceil>200 * \<bar>m * 0.95\<bar>\<rceil>"
      by (rule order_trans [of _ "\<lceil>0::real\<rceil>"]) (simp, rule ceiling_mono, simp)
    have "\<And>a b :: int. a + 1 \<le> b \<Longrightarrow> 0 \<le> a \<Longrightarrow> Suc (nat a) \<le> nat b"
      by simp
    with a b have "Suc (nat \<lceil>200 * \<bar>m * 0.95\<bar>\<rceil>) \<le> nat \<lceil>200 * \<bar>m\<bar>\<rceil>"
      by blast
    with ih have "Suc (length ?rest) \<le> nat \<lceil>200 * \<bar>m\<bar>\<rceil>"
      by linarith
    with False show ?thesis
      by (subst momentum_frames_cons [OF False]) simp
  qed
qed

lemma momentum_last_below:
  "fst (momentumAnimation m c) \<noteq> [] \<Longrightarrow> \<bar>last (fst (momentumAnimation m c)) * 0.95\<bar> < 0.1"
proof (induction m c rule: momentumAnimation.induct)
  case (1 m c)
  let ?rest = "fst (momentumAnimation (m * 0.95) (updateTransform (c\<lparr>offset := offset c + m\<rparr>)))"
  from 1(2) have big: "\<not> \<bar>m\<bar> < 0.1"
    using momentum_frames_nil [of m c] by blast
  show ?case
  proof (cases "\<bar>m * 0.95\<bar> < 0.1")
    case True
    then have "?rest = []"
      by (simp add: momentum_frames_nil)
    with big True show ?thesis
      by (subst momentum_frames_cons [OF big]) simp
  next
    case False
    then have ne: "?rest \<noteq> []"
      by (subst momentum_frames_cons [OF False]) simp
    with 1(1) big have "\<bar>last ?rest * 0.95\<bar> < 0.1"
      by simp
    with big ne show ?thesis
      by (subst momentum_frames_cons [OF big]) simp
  qed
qed


text \<open>
  C4. On pointer-up during a drag, momentum frames are produced exactly when the
  displacement \<open>|lastX - startX|\<close> exceeds 50; a drag of 50 or less produces none.
\<close>

theorem pointerUp_momentum:
  assumes "dragging c"
  shows "fst (handlePointerUp c) \<noteq> [] \<longleftrightarrow> \<bar>lastX c - startX c\<bar> > 50"
proof (cases "\<bar>lastX c - startX c\<bar> > 50")
  case True
  let ?c2 = "c\<lparr>dragging := False, classes := classes c - {''rbc-dragging''}, cursor := []\<rparr>"
  let ?m = "(lastX c - startX c) * 0.1"
  have eq: "fst (handlePointerUp c) = fst (momentumAnimation ?m ?c2)"
    using assms True by (simp add: handlePointerUp_def addMomentum_def Let_def)
  have big: "\<not> \<bar>?m\<bar> < 0.1"
    using True by (simp add: abs_mult)
  have "fst (momentumAnimation ?m ?c2) \<noteq> []"
    by (subst momentum_frames_cons [OF big]) simp
  with eq True show ?thesis
    by simp
next
  case False
  with assms show ?thesis
    by (simp add: handlePointerUp_def Let_def)
qed

theorem pointerUp_momentum_witness:
  "dragging (dragged 30) \<and> \<not> \<bar>lastX (dragged 30) - startX (dragged 30)\<bar> > 50
   \<and> fst (handlePointerUp (dragged 30)) = []
   \<and> dragging (dragged 80) \<and> \<bar>lastX (dragged 80) - startX (dragged 80)\<bar> > 50
   \<and> fst (handlePointerUp (dragged 80)) \<noteq> []"
  using pointerUp_momentum [OF dragged_fields(1), of 30]
    pointerUp_momentum [OF dragged_fields(1), of 80]
  by (simp add: dragged_fields)

text \<open>
  C5. After a drag whose displacement exceeds 50, the momentum frames start at a tenth
  of the displacement, each frame is 0.95 times the one before it, so the magnitudes
  decrease strictly, and the sequence stops: it has at most \<open>\<lceil>20 |lastX - startX|\<rceil>\<close>
  frames, and the value after the last frame is below the stop threshold 0.1.
\<close>

theorem momentum_sequence:
  assumes "dragging c" and "\<bar>lastX c - startX c\<bar> > 50"
  shows "fst (handlePointerUp c) \<noteq> []
    \<and> hd (fst (handlePointerUp c)) = (lastX c - startX c) * 0.1
    \<and> frictionChain (fst (handlePointerUp c))
    \<and> decreasingMagnitude (fst (handlePointerUp c))
    \<and> length (fst (handlePointerUp c)) \<le> nat \<lceil>20 * \<bar>lastX c - startX c\<bar>\<rceil>
    \<and> \<bar>last (fst (handlePointerUp c)) * 0.95\<bar> < 0.1"
proof -
  let ?c2 = "c\<lparr>dragging := False, classes := classes c - {''rbc-dragging''}, cursor := []\<rparr>"
  let ?m = "(lastX c - startX c) * 0.1"
  have eq: "fst (handlePointerUp c) = fst (momentumAnimation ?m ?c2)"
    using assms by (simp add: handlePointerUp_def addMomentum_def Let_def)
  have big: "\<not> \<bar>?m\<bar> < 0.1"
    using assms(2) by (simp add: abs_mult)
  have ne: "fst (momentumAnimation ?m ?c2) \<noteq> []"
    using big by (subst momentum_frames_cons [OF big]) simp
  have "200 * \<bar>?m\<bar> = 20 * \<bar>lastX c - startX c\<bar>"
    by (simp add: abs_mult)
  with momentum_length [of ?m ?c2]
  have len: "length (fst (momentumAnimation ?m ?c2)) \<le> nat \<lceil>20 * \<bar>lastX c - startX c\<bar>\<rceil>"
    by simp
  show ?thesis
    unfolding eq
    using ne momentum_frames_hd [OF ne] len momentum_chain [of ?m ?c2]
      momentum_decreasing [of ?m ?c2] momentum_last_below [OF ne]
    by blast
qed

theorem momentum_sequence_witness:
  "dragging (dragged 80) \<and> \<bar>lastX (dragged 80) - startX (dragged 80)\<bar> > 50
   \<and> hd (fst (handlePointerUp (dragged 80))) = 8
   \<and> decreasingMagnitude (fst (handlePointerUp (dragged 80)))
   \<and> length (fst (handlePointerUp (dragged 80))) \<le> 1600"
proof -
  have a: "dragging (dragged 80)" and b: "\<bar>lastX (dragged 80) - startX (dragged 80)\<bar> > 50"
    by (simp_all add: dragged_fields)
  from momentum_sequence [OF a b] a b show ?thesis
    by (simp add: dragged_fields)
qed

section \<open>The frame loop: results\<close>

lemma loopInv_view: "loopView c' = loopView c \<Longrightarrow> loopInv c' = loopInv c"
  by (simp add: loopView_def loopInv_def)






lemma playing_pause: "\<not> playing (pause c)"
  by (simp add: pause_def Let_def track_def dispatchEvent_def cancelAnimationFrame_def
      split: option.split)









lemma view_setupStructure: "loopView (setupStructure el c) = loopView c"
  by (simp add: loopView_def setupStructure_def Let_def)

























section \<open>Wrap-around of the offset: results\<close>









section \<open>Instance management: results\<close>

lemma destroyCarousel_unregistered:
  "instances p elem = None \<Longrightarrow> destroyCarousel elem p = Inr p"
  by (simp add: destroyCarousel_def)

lemma destroyCarousel_built:
  "instances p elem = Some i \<Longrightarrow> objects p i = Built c \<Longrightarrow>
   destroyCarousel elem p
     = Inr (p\<lparr>objects := (objects p)(i := Built (destroy True c)),
              instances := (instances p)(elem := None)\<rparr>)"
  by (simp add: destroyCarousel_def destroyInstance_def)

text \<open>
  After a call of \<^verbatim>\<open>destroyCarousel\<close> that returned, the element has no registry
  entry, so a second call changes nothing and throws nothing.
\<close>

lemma destroyCarousel_second_noop:
  "destroyCarousel elem p = Inr p' \<Longrightarrow> destroyCarousel elem p' = Inr p'"
  by (auto simp: destroyCarousel_def split: option.splits sum.splits)

lemma destroyTwice_built:
  assumes "instances p elem = Some i" and "objects p i = Built c"
  shows "\<exists>p'. destroyTwice elem p = (Inr p', Inr p')"
proof -
  from destroyCarousel_built [OF assms] obtain p' where first: "destroyCarousel elem p = Inr p'"
    by blast
  then have "destroyCarousel elem p' = Inr p'"
    by (rule destroyCarousel_second_noop)
  with first show ?thesis
    by (simp add: destroyTwice_def Let_def)
qed

text \<open>
  Calling the method \<^verbatim>\<open>destroy\<close> itself a second time on a constructed instance
  changes nothing of the instance and its element, and dispatches \<^verbatim>\<open>rbc:destroy\<close> once
  more.
\<close>

lemma destroy_fields:
  "\<not> playing (destroy r c)" "\<not> observing (destroy r c)" "cursor (destroy r c) = []"
  "transform (destroy r c) = NoTransform" "attachedClones (destroy r c) = 0"
  "classes (destroy r c)
     \<inter> {''rbc-ready'', ''is-paused'', ''rbc-dragging'', ''rbc-static-mode''} = {}"
  using playing_pause [of c]
  by (auto simp: destroy_def Let_def dispatchEvent_def)

lemma destroy_twice:
  "destroy r2 (destroy r1 c) = dispatchEvent ''destroy'' (destroy r1 c)"
proof -
  let ?d = "destroy r1 c"
  have p: "pause ?d = ?d"
    using destroy_fields(1) [of r1 c] by (simp add: pause_def)
  have cl: "classes ?d - {''rbc-ready'', ''is-paused'', ''rbc-dragging'', ''rbc-static-mode''}
            = classes ?d"
    using destroy_fields(6) [of r1 c] by blast
  show ?thesis
    unfolding destroy_def [of r2 ?d] Let_def p
    using destroy_fields(2-5) [of r1 c] cl
    by (simp add: dispatchEvent_def)
qed

text \<open>
  C9. Destroying the same element's instance twice should be safe, the second call a
  no-op that raises no error. For an element without the track element the constructor
  returns early, \<^verbatim>\<open>initCarousel\<close> registers the object all the same, and each of two
  \<^verbatim>\<open>destroyCarousel\<close> calls throws a \<^verbatim>\<open>TypeError\<close> and leaves the entry in place.
\<close>

theorem destroyCarousel_aborted:
  "instances (snd (initCarousel 7 noTrack desktop emptyPage)) 7 = Some 0
   \<and> objects (snd (initCarousel 7 noTrack desktop emptyPage)) 0 = Aborted
   \<and> destroyTwice 7 (snd (initCarousel 7 noTrack desktop emptyPage))
       = (Inl TypeError, Inl TypeError)"
  by (simp add: initCarousel_def emptyPage_def construct_def noTrack_def destroyTwice_def
      destroyCarousel_def destroyInstance_def Let_def)

end
